theory Spec2Isabelle
  imports Complex_Main "HOL-Library.Sublist"
begin

section \<open>Go strings\<close>

text \<open>
  A Go \<^verbatim>\<open>string\<close> is a sequence of bytes, here a \<^typ>\<open>string\<close> (a list of 8-bit
  characters). The functions of package \<^verbatim>\<open>strings\<close> that the repository calls are
  written out below with the names they have in Go.
\<close>

definition HasPrefix :: "string \<Rightarrow> string \<Rightarrow> bool" where
  "HasPrefix s p = prefix p s"

definition TrimPrefix :: "string \<Rightarrow> string \<Rightarrow> string" where
  "TrimPrefix s p = (if HasPrefix s p then drop (length p) s else s)"

primrec Contains :: "string \<Rightarrow> string \<Rightarrow> bool" where
  "Contains [] sub = (sub = [])"
| "Contains (c # cs) sub = (if prefix sub (c # cs) then True else Contains cs sub)"

text \<open>
  \<^verbatim>\<open>strings.SplitN(s, sep, 2)[1]\<close> for a non-empty \<open>sep\<close>: what follows the first
  occurrence of \<open>sep\<close> in \<open>s\<close>. The source reads this element only where
  \<^verbatim>\<open>strings.Contains(s, sep)\<close> holds, so the element exists there; lemma
  \<open>SplitN2_second_decomp\<close> below says what it is.
\<close>

primrec SplitN2_second :: "string \<Rightarrow> string \<Rightarrow> string" where
  "SplitN2_second [] sep = []"
| "SplitN2_second (c # cs) sep =
     (if prefix sep (c # cs) then drop (length sep) (c # cs) else SplitN2_second cs sep)"

text \<open>
  \<^verbatim>\<open>strings.TrimSpace\<close> removes leading and trailing runes with Unicode's White_Space
  property. On the UTF-8 bytes of the string these are the six ASCII spaces and the
  encodings of U+0085, U+00A0, U+1680, U+2000 to U+200A, U+2028, U+2029, U+202F, U+205F
  and U+3000.
\<close>

definition space_runes :: "string list" where
  "space_runes =
    [[CHR 0x09], [CHR 0x0A], [CHR 0x0B], [CHR 0x0C], [CHR 0x0D], [CHR 0x20],
     [CHR 0xC2, CHR 0x85], [CHR 0xC2, CHR 0xA0], [CHR 0xE1, CHR 0x9A, CHR 0x80],
     [CHR 0xE2, CHR 0x80, CHR 0x80], [CHR 0xE2, CHR 0x80, CHR 0x81],
     [CHR 0xE2, CHR 0x80, CHR 0x82], [CHR 0xE2, CHR 0x80, CHR 0x83],
     [CHR 0xE2, CHR 0x80, CHR 0x84], [CHR 0xE2, CHR 0x80, CHR 0x85],
     [CHR 0xE2, CHR 0x80, CHR 0x86], [CHR 0xE2, CHR 0x80, CHR 0x87],
     [CHR 0xE2, CHR 0x80, CHR 0x88], [CHR 0xE2, CHR 0x80, CHR 0x89],
     [CHR 0xE2, CHR 0x80, CHR 0x8A], [CHR 0xE2, CHR 0x80, CHR 0xA8],
     [CHR 0xE2, CHR 0x80, CHR 0xA9], [CHR 0xE2, CHR 0x80, CHR 0xAF],
     [CHR 0xE2, CHR 0x81, CHR 0x9F], [CHR 0xE3, CHR 0x80, CHR 0x80]]"

text \<open>The width in bytes of the space rune a string starts with, 0 when it starts with none.\<close>

definition leading_space :: "string \<Rightarrow> nat" where
  "leading_space s = (case find (\<lambda>w. prefix w s) space_runes of None \<Rightarrow> 0 | Some w \<Rightarrow> length w)"

definition trailing_space :: "string \<Rightarrow> nat" where
  "trailing_space s =
     (case find (\<lambda>w. suffix w s) space_runes of None \<Rightarrow> 0 | Some w \<Rightarrow> length w)"

function TrimLeftSpace :: "string \<Rightarrow> string" where
  "TrimLeftSpace s =
     (if leading_space s = 0 \<or> s = [] then s else TrimLeftSpace (drop (leading_space s) s))"
  by pat_completeness auto
termination
  by (relation "measure length") auto

function TrimRightSpace :: "string \<Rightarrow> string" where
  "TrimRightSpace s =
     (if trailing_space s = 0 \<or> s = [] then s
      else TrimRightSpace (take (length s - trailing_space s) s))"
  by pat_completeness auto
termination
  by (relation "measure length") auto

declare TrimLeftSpace.simps [simp del] TrimRightSpace.simps [simp del]

definition TrimSpace :: "string \<Rightarrow> string" where
  "TrimSpace s = TrimRightSpace (TrimLeftSpace s)"

section \<open>The success pattern of the BuildKit backend\<close>

text \<open>
  \<^verbatim>\<open>^#[0-9]+ writing image sha256:([0-9a-f]{12}).+$\<close>, as
  \<^verbatim>\<open>FindStringSubmatch\<close> answers it: \<open>None\<close> for no match (the nil slice, of length
  0), otherwise the slice has length 2 and the value is its element 1, the twelve
  hexadecimal digits. Without the multi-line flag \<open>$\<close> is the end of the text and
  \<open>.\<close> is any character but the line feed.
\<close>

definition isDigit :: "char \<Rightarrow> bool" where
  "isDigit c = (c \<in> set ''0123456789'')"

definition isLowerHex :: "char \<Rightarrow> bool" where
  "isLowerHex c = (c \<in> set ''0123456789abcdef'')"

definition buildkitRegex_submatch :: "string \<Rightarrow> string option" where
  "buildkitRegex_submatch line =
     (case line of
        [] \<Rightarrow> None
      | c # r \<Rightarrow>
          if c \<noteq> CHR ''#'' then None
          else if takeWhile isDigit r = [] then None
          else if \<not> prefix '' writing image sha256:'' (dropWhile isDigit r) then None
          else
            (let r2 = drop (length '' writing image sha256:'') (dropWhile isDigit r);
                 hex = take 12 r2;
                 rest = drop 12 r2
             in if length hex = 12 \<and> list_all isLowerHex hex \<and> rest \<noteq> [] \<and>
                   CHR 0x0A \<notin> set rest
                then Some hex else None))"

section \<open>Go errors\<close>

text \<open>
  Go errors, as far as the code tells them apart: \<^verbatim>\<open>*exec.ExitError\<close> with the exit
  status and its \<^verbatim>\<open>Stderr\<close> field, the values \<^verbatim>\<open>fmt.Errorf\<close> makes, and every
  other error, with its message.
\<close>

datatype go_error = ExitError nat string | Errorf string | OtherError string

fun nat_dec :: "nat \<Rightarrow> string" where
  "nat_dec n = (if n < 10 then [char_of (48 + n)] else nat_dec (n div 10) @ [char_of (48 + n mod 10)])"

declare nat_dec.simps [simp del]

definition Itoa :: "int \<Rightarrow> string" where
  "Itoa i = (if i < 0 then ''-'' @ nat_dec (nat (- i)) else nat_dec (nat i))"

text \<open>The \<^verbatim>\<open>Error()\<close> text of an error.\<close>

fun Error :: "go_error \<Rightarrow> string" where
  "Error (ExitError code err_out) = ''exit status '' @ nat_dec code"
| "Error (Errorf msg) = msg"
| "Error (OtherError msg) = msg"

fun is_ExitError :: "go_error \<Rightarrow> bool" where
  "is_ExitError (ExitError code err_out) = True"
| "is_ExitError e = False"

section \<open>The build log classifier: \<^verbatim>\<open>buildPipe\<close>\<close>

text \<open>
  \<^verbatim>\<open>SectionPrefix\<close> and \<^verbatim>\<open>SectionStartingBuild\<close> are constants of package
  \<^verbatim>\<open>docker\<close> declared outside the files at hand; the model takes them as parameters.
\<close>

record docker_consts =
  SectionPrefix :: string
  SectionStartingBuild :: string

definition successPrefix :: string where
  "successPrefix = ''Successfully built ''"

definition sectionPrefix :: "docker_consts \<Rightarrow> string" where
  "sectionPrefix c = ''RUN '' @ SectionPrefix c"

text \<open>The two local variables of the scanning goroutine.\<close>

record scan_state =
  currentSection :: string
  currentLogLines :: "string list"

text \<open>
  What the logger receives (\<^verbatim>\<open>Debug\<close>, \<^verbatim>\<open>Info\<close>, \<^verbatim>\<open>WriteError\<close>), and what the
  goroutine does to the outside, in program order: a call of the logger, a send on
  \<^verbatim>\<open>tagChan\<close>, the send on \<^verbatim>\<open>lastLogsChan\<close>. Both channels are unbuffered.
\<close>

datatype log_entry = Debug string | Info string | WriteError go_error

datatype action = Log log_entry | SendTag string | SendLastLogs "string list"

text \<open>One pass through the body of \<^verbatim>\<open>for scanner.Scan()\<close>, for the line read.\<close>

definition scan_line :: "docker_consts \<Rightarrow> scan_state \<Rightarrow> string \<Rightarrow> scan_state \<times> action list" where
  "scan_line c st line =
     (let (st1, a1) =
            (if Contains line (sectionPrefix c)
             then (let sec = SplitN2_second line (sectionPrefix c)
                   in (\<lparr>currentSection = sec, currentLogLines = []\<rparr>,
                       [Log (Info (''  * '' @ sec))]))
             else (st\<lparr>currentLogLines := currentLogLines st @ [line]\<rparr>, []));
          a2 = (if HasPrefix line successPrefix
                then [SendTag (TrimSpace (TrimPrefix line successPrefix))] else []);
          a3 = (case buildkitRegex_submatch line of
                  Some m \<Rightarrow> [SendTag m]
                | None \<Rightarrow> [])
      in (st1, [Log (Debug line)] @ a1 @ a2 @ a3))"

text \<open>The loop, over the lines the scanner yields until it stops.\<close>

fun scan_loop :: "docker_consts \<Rightarrow> scan_state \<Rightarrow> string list \<Rightarrow> scan_state \<times> action list" where
  "scan_loop c st [] = (st, [])"
| "scan_loop c st (line # rest) =
     (let (st1, a) = scan_line c st line;
          (st2, b) = scan_loop c st1 rest
      in (st2, a @ b))"

definition scan_init :: "docker_consts \<Rightarrow> scan_state" where
  "scan_init c = \<lparr>currentSection = SectionStartingBuild c, currentLogLines = []\<rparr>"

text \<open>The whole goroutine: the loop, then the send of the window.\<close>

definition scanner :: "docker_consts \<Rightarrow> string list \<Rightarrow> action list" where
  "scanner c lines =
     (let (st, a) = scan_loop c (scan_init c) lines
      in a @ [SendLastLogs (currentLogLines st)])"


text \<open>What a run of the goroutine sends on \<^verbatim>\<open>tagChan\<close>, in order.\<close>

fun tags_sent :: "action list \<Rightarrow> string list" where
  "tags_sent [] = []"
| "tags_sent (SendTag t # as) = t # tags_sent as"
| "tags_sent (a # as) = tags_sent as"

text \<open>What a run of the goroutine hands to the logger, in order.\<close>

fun logs_of :: "action list \<Rightarrow> log_entry list" where
  "logs_of [] = []"
| "logs_of (Log e # as) = e # logs_of as"
| "logs_of (a # as) = logs_of as"

fun is_SendLastLogs :: "action \<Rightarrow> bool" where
  "is_SendLastLogs (SendLastLogs w) = True"
| "is_SendLastLogs a = False"

text \<open>The value of \<^verbatim>\<open>currentLogLines\<close> when the loop ends.\<close>

definition trailing_window :: "docker_consts \<Rightarrow> string list \<Rightarrow> string list" where
  "trailing_window c lines = currentLogLines (fst (scan_loop c (scan_init c) lines))"

text \<open>The tags one line makes the goroutine send, whatever the state it is read in.\<close>

definition line_tags :: "string \<Rightarrow> string list" where
  "line_tags line =
     (if HasPrefix line successPrefix then [TrimSpace (TrimPrefix line successPrefix)] else []) @
     (case buildkitRegex_submatch line of Some m \<Rightarrow> [m] | None \<Rightarrow> [])"

subsection \<open>The window as the specification words it\<close>

text \<open>
  A section-marker line is one the classifier takes for a section change. The lines after
  the \<open>n\<close>-th marker line of a stream are what is left when the stream is cut behind its
  \<open>n\<close>-th marker; after the 0-th marker is the whole stream.
\<close>

definition is_marker :: "docker_consts \<Rightarrow> string \<Rightarrow> bool" where
  "is_marker c line = Contains line (sectionPrefix c)"

fun after_nth_marker :: "(string \<Rightarrow> bool) \<Rightarrow> nat \<Rightarrow> string list \<Rightarrow> string list" where
  "after_nth_marker m 0 ls = ls"
| "after_nth_marker m (Suc n) [] = []"
| "after_nth_marker m (Suc n) (l # ls) =
     (if m l then after_nth_marker m n ls else after_nth_marker m (Suc n) ls)"

section \<open>External commands\<close>

text \<open>
  One run of an external command, as the operating system decides it: whether a pipe to
  it can be made, whether it starts, what it writes and how it exits (0 is success; death
  by a signal is not modelled). \<open>stdout_lines\<close> and \<open>stderr_lines\<close> are the lines
  a reader of the pipe is handed before the pipe ends; \<^verbatim>\<open>Wait\<close> closes the pipes when
  the command exits, so a reader that runs beside it may be handed less than the command
  wrote. \<open>stderr_text\<close> is all the command wrote to standard error.
\<close>

record invocation =
  pipe_error :: "go_error option"
  start_error :: "string option"
  stdout_lines :: "string list"
  stderr_text :: string
  stderr_lines :: "string list"
  exit_status :: nat

text \<open>
  Package \<^verbatim>\<open>os/exec\<close>. \<^verbatim>\<open>Cmd.Output\<close> collects standard error into the
  \<^verbatim>\<open>ExitError\<close> when \<^verbatim>\<open>Cmd.Stderr\<close> is nil (beyond 64 KiB it keeps the two ends
  only, which is not modelled); \<^verbatim>\<open>Cmd.Run\<close> and \<^verbatim>\<open>Cmd.Wait\<close> never fill that field.
  A command that cannot be started fails with an error that is not an \<^verbatim>\<open>ExitError\<close>.
\<close>

definition cmd_Output :: "invocation \<Rightarrow> go_error option" where
  "cmd_Output cmd =
     (case start_error cmd of
        Some msg \<Rightarrow> Some (OtherError msg)
      | None \<Rightarrow> if exit_status cmd = 0 then None
                else Some (ExitError (exit_status cmd) (stderr_text cmd)))"

definition cmd_Wait :: "invocation \<Rightarrow> go_error option" where
  "cmd_Wait cmd = (if exit_status cmd = 0 then None else Some (ExitError (exit_status cmd) []))"

definition cmd_Run :: "invocation \<Rightarrow> go_error option" where
  "cmd_Run cmd =
     (case start_error cmd of Some msg \<Rightarrow> Some (OtherError msg) | None \<Rightarrow> cmd_Wait cmd)"

text \<open>
  How a call ends: it returns, it panics, the process is ended by \<^verbatim>\<open>console.Fatal\<close>,
  or it blocks for ever.
\<close>

datatype 'a outcome = Returns 'a | Panics | Exits string | Blocks

section \<open>The image builder: \<^verbatim>\<open>build\<close>, \<^verbatim>\<open>tag\<close>, \<^verbatim>\<open>push\<close>\<close>

text \<open>
  After \<^verbatim>\<open>cmd.Wait\<close> the function \<^verbatim>\<open>build\<close> receives once, on one of the two
  channels, while the scanning goroutine runs through its actions. A call of the logger
  never waits. A send on an unbuffered channel ends only when the other side receives
  on that channel, and \<^verbatim>\<open>build\<close> is the only receiver there is. So the goroutine runs
  up to its first send: if that send is on the channel \<^verbatim>\<open>build\<close> receives on, the value
  is handed over, with the log entries written before it; if it is on the other channel
  both sides wait for ever, and so does the receiver when the goroutine has ended: that
  is the value \<open>None\<close>.
\<close>

fun recv_tag :: "action list \<Rightarrow> (log_entry list \<times> string) option" where
  "recv_tag [] = None"
| "recv_tag (Log e # as) = map_option (\<lambda>(lg, t). (e # lg, t)) (recv_tag as)"
| "recv_tag (SendTag t # as) = Some ([], t)"
| "recv_tag (SendLastLogs w # as) = None"

fun recv_lastLogs :: "action list \<Rightarrow> (log_entry list \<times> string list) option" where
  "recv_lastLogs [] = None"
| "recv_lastLogs (Log e # as) = map_option (\<lambda>(lg, w). (e # lg, w)) (recv_lastLogs as)"
| "recv_lastLogs (SendTag t # as) = None"
| "recv_lastLogs (SendLastLogs w # as) = Some ([], w)"

text \<open>
  \<^verbatim>\<open>build\<close>: the pair \<^verbatim>\<open>(tag, err)\<close> it returns is \<open>Inr tag\<close> or \<open>Inl err\<close>; beside
  it, what the logger has received when it returns. The lines of \<open>stdout_lines\<close> are
  those the scanner yields; the command is taken to exit whether or not they are read.
\<close>

definition build :: "docker_consts \<Rightarrow> invocation \<Rightarrow> ((go_error + string) \<times> log_entry list) outcome" where
  "build c cmd =
     (case pipe_error cmd of
        Some err \<Rightarrow> Returns (Inl err, [])
      | None \<Rightarrow>
          (case start_error cmd of
             Some msg \<Rightarrow> Returns (Inl (OtherError msg), [])
           | None \<Rightarrow>
               (case cmd_Wait cmd of
                  Some err \<Rightarrow>
                    (case recv_lastLogs (scanner c (stdout_lines cmd)) of
                       None \<Rightarrow> Blocks
                     | Some (lg, lastLogs) \<Rightarrow> Returns (Inl err, lg @ map Info lastLogs))
                | None \<Rightarrow>
                    (case recv_tag (scanner c (stdout_lines cmd)) of
                       None \<Rightarrow> Blocks
                     | Some (lg, dockerTag) \<Rightarrow>
                         Returns (Inr dockerTag, lg @ [Info (''Successfully built '' @ dockerTag)])))))"

text \<open>
  \<^verbatim>\<open>tag\<close>: the type assertion \<^verbatim>\<open>err.(*exec.ExitError)\<close> has no second result, so it
  panics on an error of another type.
\<close>

definition tag :: "string \<Rightarrow> string \<Rightarrow> invocation \<Rightarrow> go_error option outcome" where
  "tag t fullImageTag cmd =
     (case cmd_Output cmd of
        None \<Rightarrow> Returns None
      | Some err \<Rightarrow>
          (case err of
             ExitError code err_out \<Rightarrow>
               Returns (Some (Errorf (''Failed to tag '' @ t @ '' as '' @ fullImageTag @
                                      '', got error: '' @ err_out)))
           | Errorf msg \<Rightarrow> Panics
           | OtherError msg \<Rightarrow> Panics))"

text \<open>
  Modelled from the spec: \<^verbatim>\<open>shell.PipeTo\<close> and \<^verbatim>\<open>console.Fatal\<close> are not among the
  files at hand. \<^verbatim>\<open>PipeTo\<close> makes the pipe, hands each line read from it to the callback
  and closes the channel it returned when the pipe ends; \<^verbatim>\<open>Fatal\<close> ends the process with
  its message.
\<close>

text \<open>The callback of \<^verbatim>\<open>pipeToWithDockerChecks\<close>, over the lines in turn.\<close>

fun docker_checks :: "string list \<Rightarrow> log_entry list \<Rightarrow> log_entry list outcome" where
  "docker_checks [] lg = Returns lg"
| "docker_checks (line # rest) lg =
     (if Contains line ''Cannot connect to the Docker daemon''
      then Exits ''Docker does not appear to be running; please start Docker and try again''
      else if Contains line ''failed to dial gRPC: unable to upgrade to h2c, received 502''
      then Exits ''Your Docker version appears to be out out date; please upgrade Docker to the latest version and try again''
      else docker_checks rest (lg @ [Info line]))"

text \<open>
  \<^verbatim>\<open>push\<close>: the error it returns, and what the logger has received. The callback is
  given the lines of \<open>stderr_lines\<close>, those read from the pipe while \<^verbatim>\<open>cmd.Run\<close>
  runs.
\<close>

definition push :: "string \<Rightarrow> invocation \<Rightarrow> (go_error option \<times> log_entry list) outcome" where
  "push t cmd =
     (case pipe_error cmd of
        Some err \<Rightarrow> Returns (Some err, [Info (''Pushing '' @ t @ '' to registry'')])
      | None \<Rightarrow>
          (case start_error cmd of
             Some msg \<Rightarrow> Returns (cmd_Run cmd, [Info (''Pushing '' @ t @ '' to registry'')])
           | None \<Rightarrow>
               (case docker_checks (stderr_lines cmd)
                       [Info (''Pushing '' @ t @ '' to registry'')] of
                  Returns lg \<Rightarrow> Returns (cmd_Run cmd, lg)
                | Panics \<Rightarrow> Panics
                | Exits msg \<Rightarrow> Exits msg
                | Blocks \<Rightarrow> Blocks)))"

definition noRegistry :: string where
  "noRegistry = ''no_registry''"

definition NewLocalImageBuilder :: "string \<Rightarrow> string" where
  "NewLocalImageBuilder registry = (if registry = [] then noRegistry else registry)"

text \<open>
  \<^verbatim>\<open>BuildAndPush\<close>, for a builder with the given registry and the three commands it
  runs: the pair \<^verbatim>\<open>(fullImageTag, err)\<close> as \<open>Inr fullImageTag\<close> or \<open>Inl err\<close>.
\<close>

definition BuildAndPush ::
  "docker_consts \<Rightarrow> string \<Rightarrow> string \<Rightarrow> invocation \<Rightarrow> invocation \<Rightarrow> invocation \<Rightarrow>
   (go_error + string) outcome" where
  "BuildAndPush c registry name build_cmd tag_cmd push_cmd =
     (case build c build_cmd of
        Panics \<Rightarrow> Panics
      | Exits msg \<Rightarrow> Exits msg
      | Blocks \<Rightarrow> Blocks
      | Returns (Inl err, lg) \<Rightarrow> Returns (Inl err)
      | Returns (Inr t, lg) \<Rightarrow>
          (let fullImageTag = registry @ ''/'' @ name @ '':'' @ t in
           case tag t fullImageTag tag_cmd of
             Panics \<Rightarrow> Panics
           | Exits msg \<Rightarrow> Exits msg
           | Blocks \<Rightarrow> Blocks
           | Returns (Some err) \<Rightarrow> Returns (Inl err)
           | Returns None \<Rightarrow>
               if registry \<noteq> noRegistry
               then (case push fullImageTag push_cmd of
                       Panics \<Rightarrow> Panics
                     | Exits msg \<Rightarrow> Exits msg
                     | Blocks \<Rightarrow> Blocks
                     | Returns (Some err, lg) \<Rightarrow> Returns (Inl err)
                     | Returns (None, lg) \<Rightarrow> Returns (Inr fullImageTag))
               else Returns (Inr fullImageTag)))"

text \<open>
  An error value carries a text when the text is part of its message or of the
  standard error it holds.
\<close>

fun carries_text :: "go_error \<Rightarrow> string \<Rightarrow> bool" where
  "carries_text (ExitError code err_out) txt =
     (if Contains (Error (ExitError code err_out)) txt then True else Contains err_out txt)"
| "carries_text (Errorf msg) txt = Contains msg txt"
| "carries_text (OtherError msg) txt = Contains msg txt"

section \<open>Examples and results\<close>

text \<open>The two pointer fields of \<^verbatim>\<open>ExampleValue\<close>; \<open>None\<close> is the nil pointer.\<close>

record ExampleValue =
  String :: "string option"
  File :: "string option"

record Example =
  Values :: "string \<rightharpoonup> ExampleValue"

definition NewExample :: "(string \<rightharpoonup> string) \<Rightarrow> Example" where
  "NewExample keyVals =
     \<lparr>Values = (\<lambda>key.
        case keyVals key of
          None \<Rightarrow> None
        | Some val \<Rightarrow>
            Some (if HasPrefix val ''@''
                  then \<lparr>String = None, File = Some (drop 1 val)\<rparr>
                  else \<lparr>String = Some val, File = None\<rparr>))\<rparr>"

text \<open>
  \<^verbatim>\<open>filepath.Join\<close> is the standard library's and depends on the operating system; it
  is the parameter \<open>Join\<close>.
\<close>

definition NewExampleWithBaseDir ::
  "(string \<Rightarrow> string \<Rightarrow> string) \<Rightarrow> (string \<rightharpoonup> string) \<Rightarrow> string \<Rightarrow> Example" where
  "NewExampleWithBaseDir Join keyVals baseDir =
     \<lparr>Values = (\<lambda>key.
        case keyVals key of
          None \<Rightarrow> None
        | Some val \<Rightarrow>
            Some (if HasPrefix val ''@''
                  then \<lparr>String = None, File = Some (Join baseDir (drop 1 val))\<rparr>
                  else \<lparr>String = Some val, File = None\<rparr>))\<rparr>"

text \<open>The buffer of a \<^verbatim>\<open>ResultValue\<close> is the bytes it holds.\<close>

record ResultValue =
  Buffer :: string
  MimeType :: string

record Result =
  Values :: "string \<rightharpoonup> ResultValue"
  SetupTime :: real
  RunTime :: real

section \<open>The serving session: \<^verbatim>\<open>RunInference\<close>\<close>

text \<open>
  What the call meets outside the program. A file: whether \<^verbatim>\<open>os.Open\<close> fails, the
  bytes \<^verbatim>\<open>io.Copy\<close> moves before it stops, the error it stops with, and whether
  \<^verbatim>\<open>Close\<close> fails. A response: status, headers, the bytes read from the body and the
  error the reading ends with.
\<close>

record file_env =
  open_error :: "go_error option"
  content :: string
  copy_error :: "go_error option"
  close_error :: "go_error option"

record http_response =
  StatusCode :: int
  Header :: "string \<rightharpoonup> string"
  Body :: string
  body_error :: "go_error option"

datatype part = FormFile string string string | FormField string string

text \<open>
  \<open>range_order\<close> is the order in which \<^verbatim>\<open>range\<close> yields the keys of the map this
  time. \<open>ParseFloat\<close> is \<^verbatim>\<open>strconv.ParseFloat(s, 64)\<close>: the value and the error it
  returns. The writer's errors are those of the calls the source checks.
\<close>

record infer_env =
  range_order :: "string list"
  files :: "string \<Rightarrow> file_env"
  CreateFormFile_error :: "string \<Rightarrow> go_error option"
  CreateFormField_error :: "string \<Rightarrow> go_error option"
  Write_error :: "string \<Rightarrow> go_error option"
  mwriter_Close_error :: "go_error option"
  NewRequest_error :: "go_error option"
  Do :: "part list \<Rightarrow> go_error + http_response"
  container_logs :: "go_error + string"
  ParseFloat :: "string \<Rightarrow> real \<times> go_error option"

text \<open>\<^verbatim>\<open>filepath.Base\<close>, with the slash as separator.\<close>

definition Base :: "string \<Rightarrow> string" where
  "Base path =
     (if path = [] then ''.''
      else (let p = rev (dropWhile (\<lambda>ch. ch = CHR ''/'') (rev path));
                b = rev (takeWhile (\<lambda>ch. ch \<noteq> CHR ''/'') (rev p))
            in if b = [] then ''/'' else b))"

text \<open>\<^verbatim>\<open>Header.Get\<close> for a key in canonical form: the empty string when it is absent.\<close>

definition Header_Get :: "(string \<rightharpoonup> string) \<Rightarrow> string \<Rightarrow> string" where
  "Header_Get h key = (case h key of None \<Rightarrow> [] | Some v \<Rightarrow> v)"

text \<open>\<^verbatim>\<open>strings.Split(s, sep)[0]\<close> for a separator of one byte.\<close>

definition Split_first :: "string \<Rightarrow> char \<Rightarrow> string" where
  "Split_first s sep = takeWhile (\<lambda>ch. ch \<noteq> sep) s"

text \<open>The multipart body written so far, and the files that are open.\<close>

record encoding =
  parts :: "part list"
  open_files :: "string list"

text \<open>
  The body of the loop over \<^verbatim>\<open>input.Values\<close> for one entry; \<open>Returns None\<close> is
  reaching the end of the body. Reading \<^verbatim>\<open>*val.String\<close> panics on the nil pointer.
\<close>

definition encode_value ::
  "infer_env \<Rightarrow> string \<Rightarrow> ExampleValue \<Rightarrow> encoding \<Rightarrow> go_error option outcome \<times> encoding" where
  "encode_value env key val enc =
     (case File val of
        Some path \<Rightarrow>
          (case CreateFormFile_error env key of
             Some err \<Rightarrow> (Returns (Some err), enc)
           | None \<Rightarrow>
               (case open_error (files env path) of
                  Some err \<Rightarrow>
                    (Returns (Some err), enc\<lparr>parts := parts enc @ [FormFile key (Base path) []]\<rparr>)
                | None \<Rightarrow>
                    (let enc1 = \<lparr>parts = parts enc @
                                   [FormFile key (Base path) (content (files env path))],
                                 open_files = path # open_files enc\<rparr>
                     in case copy_error (files env path) of
                          Some err \<Rightarrow> (Returns (Some err), enc1)
                        | None \<Rightarrow>
                            (let enc2 = enc1\<lparr>open_files := remove1 path (open_files enc1)\<rparr>
                             in case close_error (files env path) of
                                  Some err \<Rightarrow> (Returns (Some err), enc2)
                                | None \<Rightarrow> (Returns None, enc2)))))
      | None \<Rightarrow>
          (case CreateFormField_error env key of
             Some err \<Rightarrow> (Returns (Some err), enc)
           | None \<Rightarrow>
               (case String val of
                  None \<Rightarrow> (Panics, enc\<lparr>parts := parts enc @ [FormField key []]\<rparr>)
                | Some s \<Rightarrow>
                    (case Write_error env key of
                       Some err \<Rightarrow>
                         (Returns (Some err), enc\<lparr>parts := parts enc @ [FormField key []]\<rparr>)
                     | None \<Rightarrow>
                         (Returns None, enc\<lparr>parts := parts enc @ [FormField key s]\<rparr>)))))"

fun encode_loop ::
  "infer_env \<Rightarrow> (string \<rightharpoonup> ExampleValue) \<Rightarrow> string list \<Rightarrow> encoding \<Rightarrow>
   go_error option outcome \<times> encoding" where
  "encode_loop env vals [] enc = (Returns None, enc)"
| "encode_loop env vals (key # keys) enc =
     (case vals key of
        None \<Rightarrow> encode_loop env vals keys enc
      | Some val \<Rightarrow>
          (case encode_value env key val enc of
             (Returns None, enc1) \<Rightarrow> encode_loop env vals keys enc1
           | (r, enc1) \<Rightarrow> (r, enc1)))"

text \<open>
  What a call leaves behind: the files still open, what the logger received, and the
  lines \<^verbatim>\<open>console.Errorf\<close> printed.
\<close>

record effects =
  left_open :: "string list"
  logged :: "log_entry list"
  console :: "string list"

definition writeContainerLogs :: "infer_env \<Rightarrow> log_entry list" where
  "writeContainerLogs env =
     (case container_logs env of Inl err \<Rightarrow> [WriteError err] | Inr logs \<Rightarrow> [Info logs])"

text \<open>
  The two timing headers. The variable starts as \<open>-1\<close>; for a header that is not empty
  it is assigned the first result of \<^verbatim>\<open>ParseFloat\<close>, and the second, when it is an
  error, is printed.
\<close>

definition timing :: "infer_env \<Rightarrow> string \<Rightarrow> real" where
  "timing env str = (if str \<noteq> [] then fst (ParseFloat env str) else - 1)"

definition timing_errors :: "infer_env \<Rightarrow> string \<Rightarrow> string \<Rightarrow> string list" where
  "timing_errors env what str =
     (if str \<noteq> []
      then (case snd (ParseFloat env str) of
              Some err \<Rightarrow> [''Failed to parse '' @ what @ '' time '' @ [CHR 0x27] @ str @
                            [CHR 0x27] @ '' as float: '' @ Error err]
            | None \<Rightarrow> [])
      else [])"

definition decode_response :: "infer_env \<Rightarrow> http_response \<Rightarrow> Result \<times> string list" where
  "decode_response env resp =
     (let contentType = Header_Get (Header resp) ''Content-Type'';
          mimeType = Split_first contentType CHR '';'';
          setupTimeStr = Header_Get (Header resp) ''X-Setup-Time'';
          runTimeStr = Header_Get (Header resp) ''X-Run-Time''
      in (\<lparr>Values = [''output'' \<mapsto> \<lparr>Buffer = Body resp, MimeType = mimeType\<rparr>],
           SetupTime = timing env setupTimeStr,
           RunTime = timing env runTimeStr\<rparr>,
          timing_errors env ''setup'' setupTimeStr @ timing_errors env ''run'' runTimeStr))"

definition RunInference ::
  "infer_env \<Rightarrow> int \<Rightarrow> Example \<Rightarrow> (go_error + Result) outcome \<times> effects" where
  "RunInference env port input =
     (case encode_loop env (Example.Values input) (range_order env)
             \<lparr>parts = [], open_files = []\<rparr> of
        (Panics, enc) \<Rightarrow> (Panics, \<lparr>left_open = open_files enc, logged = [], console = []\<rparr>)
      | (Exits msg, enc) \<Rightarrow>
          (Exits msg, \<lparr>left_open = open_files enc, logged = [], console = []\<rparr>)
      | (Blocks, enc) \<Rightarrow> (Blocks, \<lparr>left_open = open_files enc, logged = [], console = []\<rparr>)
      | (Returns (Some err), enc) \<Rightarrow>
          (Returns (Inl err), \<lparr>left_open = open_files enc, logged = [], console = []\<rparr>)
      | (Returns None, enc) \<Rightarrow>
          (let url = ''http://localhost:'' @ Itoa port @ ''/infer'';
               quiet = \<lparr>left_open = open_files enc, logged = [], console = []\<rparr>
           in case mwriter_Close_error env of
                Some err \<Rightarrow>
                  (Returns (Inl (Errorf (''Failed to close form mime writer: '' @ Error err))), quiet)
              | None \<Rightarrow>
                  (case NewRequest_error env of
                     Some err \<Rightarrow>
                       (Returns (Inl (Errorf (''Failed to create HTTP request to '' @ url @ '': '' @
                                              Error err))), quiet)
                   | None \<Rightarrow>
                       (case Do env (parts enc) of
                          Inl err \<Rightarrow>
                            (Returns (Inl (Errorf (''Failed to POST HTTP request to '' @ url @
                                                   '': '' @ Error err))),
                             quiet\<lparr>logged := writeContainerLogs env\<rparr>)
                        | Inr resp \<Rightarrow>
                            if StatusCode resp \<noteq> 200
                            then (Returns (Inl (Errorf (''/infer call returned status '' @
                                                        Itoa (StatusCode resp)))),
                                  quiet\<lparr>logged := writeContainerLogs env\<rparr>)
                            else (case body_error resp of
                                    Some err \<Rightarrow>
                                      (Returns (Inl (Errorf (''Failed to read response: '' @
                                                             Error err))), quiet)
                                  | None \<Rightarrow>
                                      (Returns (Inr (fst (decode_response env resp))),
                                       quiet\<lparr>console := snd (decode_response env resp)\<rparr>))))))"

text \<open>
  \<^verbatim>\<open>strconv.ParseFloat\<close> on plain decimal literals (a sign, digits, a point, digits;
  no exponent, no hexadecimal form, no infinity or NaN), for running the model: the
  value of the literal and no error. On a text that is not a number it returns 0 and a
  syntax error, as \<^verbatim>\<open>ParseFloat\<close> does.
\<close>

definition digits_value :: "string \<Rightarrow> nat" where
  "digits_value ds = foldl (\<lambda>acc ch. 10 * acc + (of_char ch - 48)) 0 ds"

definition decimal_literal :: "string \<Rightarrow> real option" where
  "decimal_literal s =
     (let neg = (case s of [] \<Rightarrow> False | ch # t \<Rightarrow> ch = CHR ''-'');
          r = (case s of [] \<Rightarrow> [] | ch # t \<Rightarrow> if ch = CHR ''-'' \<or> ch = CHR ''+'' then t else s);
          ip = takeWhile isDigit r;
          r1 = dropWhile isDigit r;
          fp = (case r1 of [] \<Rightarrow> [] | ch # t \<Rightarrow> if ch = CHR ''.'' then takeWhile isDigit t else []);
          r2 = (case r1 of [] \<Rightarrow> [] | ch # t \<Rightarrow> if ch = CHR ''.'' then dropWhile isDigit t else r1)
      in if ip @ fp = [] then None
         else if r2 \<noteq> [] then None
         else Some ((if neg then - 1 else 1) * (real (digits_value (ip @ fp)) / 10 ^ length fp)))"

definition ParseFloat_decimal :: "string \<Rightarrow> real \<times> go_error option" where
  "ParseFloat_decimal s =
     (case decimal_literal s of
        Some v \<Rightarrow> (v, None)
      | None \<Rightarrow> (0, Some (OtherError (''strconv.ParseFloat: parsing '' @ [CHR 0x22] @ s @
                                       [CHR 0x22] @ '': invalid syntax''))))"

section \<open>Readiness polling: \<^verbatim>\<open>waitForContainerReady\<close>\<close>




section \<open>Properties of the classifier\<close>

lemma SplitN2_second_decomp:
  "Contains s sep \<Longrightarrow> \<exists>pre. s = pre @ sep @ SplitN2_second s sep"
proof (induction s)
  case Nil
  then show ?case by simp
next
  case (Cons ch s)
  show ?case
  proof (cases "prefix sep (ch # s)")
    case True
    then have "ch # s = sep @ drop (length sep) (ch # s)" by (auto simp: prefix_def)
    moreover from True have "SplitN2_second (ch # s) sep = drop (length sep) (ch # s)" by simp
    ultimately have "ch # s = [] @ sep @ SplitN2_second (ch # s) sep" by simp
    then show ?thesis by blast
  next
    case False
    with Cons.prems have "Contains s sep" by simp
    with Cons.IH obtain pre where "s = pre @ sep @ SplitN2_second s sep" by blast
    with False have "ch # s = (ch # pre) @ sep @ SplitN2_second (ch # s) sep" by simp
    then show ?thesis by blast
  qed
qed

lemma scan_line_window:
  "currentLogLines (fst (scan_line c st line)) =
     (if is_marker c line then [] else currentLogLines st @ [line])"
  by (simp add: scan_line_def is_marker_def Let_def)

lemma scan_line_no_last: "list_all (\<lambda>a. \<not> is_SendLastLogs a) (snd (scan_line c st line))"
  by (simp add: scan_line_def Let_def split: option.split)

lemma scan_loop_no_last: "list_all (\<lambda>a. \<not> is_SendLastLogs a) (snd (scan_loop c st ls))"
proof (induction ls arbitrary: st)
  case Nil
  show ?case by simp
next
  case (Cons l ls)
  have a: "list_all (\<lambda>a. \<not> is_SendLastLogs a) (snd (scan_line c st l))"
    by (rule scan_line_no_last)
  have b: "list_all (\<lambda>a. \<not> is_SendLastLogs a) (snd (scan_loop c (fst (scan_line c st l)) ls))"
    by (rule Cons.IH)
  from a b show ?case by (simp add: case_prod_beta Let_def)
qed

text \<open>
  The window the loop ends with, from any state it starts in: the lines read are added to
  the window while no marker comes, and a marker leaves only what follows it.
\<close>

lemma scan_loop_window:
  "currentLogLines (fst (scan_loop c st ls)) =
     (if filter (is_marker c) ls = [] then currentLogLines st @ ls
      else after_nth_marker (is_marker c) (length (filter (is_marker c) ls)) ls)"
proof (induction ls arbitrary: st)
  case Nil
  show ?case by simp
next
  case (Cons l ls)
  let ?st1 = "fst (scan_line c st l)"
  have step: "currentLogLines (fst (scan_loop c st (l # ls))) =
      currentLogLines (fst (scan_loop c ?st1 ls))"
    by (simp add: case_prod_beta Let_def)
  show ?case
  proof (cases "is_marker c l")
    case True
    then have w: "currentLogLines ?st1 = []" by (simp add: scan_line_window)
    show ?thesis
    proof (cases "filter (is_marker c) ls = []")
      case e: True
      with True w show ?thesis unfolding step Cons.IH by simp
    next
      case ne: False
      with True w show ?thesis unfolding step Cons.IH by simp
    qed
  next
    case False
    then have w: "currentLogLines ?st1 = currentLogLines st @ [l]"
      by (simp add: scan_line_window)
    show ?thesis
    proof (cases "filter (is_marker c) ls = []")
      case e: True
      with False w show ?thesis unfolding step Cons.IH by simp
    next
      case ne: False
      then obtain n where n: "length (filter (is_marker c) ls) = Suc n"
        by (cases "length (filter (is_marker c) ls)") auto
      with False w ne show ?thesis unfolding step Cons.IH by simp
    qed
  qed
qed

lemma trailing_window_eq:
  "trailing_window c ls = after_nth_marker (is_marker c) (length (filter (is_marker c) ls)) ls"
  by (simp add: trailing_window_def scan_loop_window scan_init_def)

lemma after_nth_marker_no_marker:
  "filter m (after_nth_marker m (length (filter m ls)) ls) = []"
proof (induction ls)
  case Nil
  show ?case by simp
next
  case (Cons l ls)
  show ?case
  proof (cases "filter m ls")
    case Nil
    then show ?thesis by simp
  next
    case (Cons x xs)
    with Cons.IH show ?thesis by simp
  qed
qed

lemma scan_loop_append:
  "scan_loop c st (xs @ ys) =
     (let (st1, a) = scan_loop c st xs; (st2, b) = scan_loop c st1 ys in (st2, a @ b))"
  by (induction xs arbitrary: st) (simp_all add: case_prod_beta Let_def)

lemma scanner_decomp:
  "scanner c ls = snd (scan_loop c (scan_init c) ls) @ [SendLastLogs (trailing_window c ls)]"
  by (simp add: scanner_def trailing_window_def case_prod_beta Let_def)

lemma scanner_last: "last (scanner c ls) = SendLastLogs (trailing_window c ls)"
  by (simp add: scanner_decomp)

lemma scanner_butlast: "list_all (\<lambda>a. \<not> is_SendLastLogs a) (butlast (scanner c ls))"
  by (simp add: scanner_decomp scan_loop_no_last)

lemma trailing_window_snoc:
  "trailing_window c (pre @ [l]) = (if is_marker c l then [] else trailing_window c pre @ [l])"
  by (simp add: trailing_window_def scan_loop_append case_prod_beta Let_def scan_line_window)

text \<open>
  Claim C2. For a stream with \<open>N\<close> section-marker lines, the last thing the scanning
  goroutine does is to send, on \<^verbatim>\<open>lastLogsChan\<close>, exactly the lines after the \<open>N\<close>-th
  marker line, in the order they came; it sends on that channel at no earlier point; no
  marker line is among the lines sent; and whenever the line just read is a marker line
  the window is empty.
\<close>

theorem trailing_window_after_last_marker:
  "length (filter (is_marker c) lines) = N \<Longrightarrow>
   last (scanner c lines) = SendLastLogs (after_nth_marker (is_marker c) N lines) \<and>
   list_all (\<lambda>a. \<not> is_SendLastLogs a) (butlast (scanner c lines)) \<and>
   filter (is_marker c) (after_nth_marker (is_marker c) N lines) = [] \<and>
   (\<forall>pre l. is_marker c l \<longrightarrow> trailing_window c (pre @ [l]) = [])"
  using scanner_last [of c lines] scanner_butlast [of c lines]
    after_nth_marker_no_marker [of "is_marker c" lines]
  by (auto simp: trailing_window_eq [symmetric] trailing_window_snoc)

theorem trailing_window_after_last_marker_witness:
  "last (scanner \<lparr>SectionPrefix = ''__section__ '', SectionStartingBuild = ''starting build''\<rparr>
      [''early'', ''RUN __section__ install'', ''log1'', ''Successfully built abc123'']) =
     SendLastLogs [''log1'', ''Successfully built abc123''] \<and>
   trailing_window \<lparr>SectionPrefix = ''__section__ '', SectionStartingBuild = ''starting build''\<rparr>
      ([''early'', ''log0''] @ [''Step 2/3 : RUN __section__ install'']) = []"
proof -
  let ?c = "\<lparr>SectionPrefix = ''__section__ '', SectionStartingBuild = ''starting build''\<rparr>"
  let ?ls = "[''early'', ''RUN __section__ install'', ''log1'', ''Successfully built abc123'']"
  have n: "length (filter (is_marker ?c) ?ls) = 1" by code_simp
  have m: "is_marker ?c ''Step 2/3 : RUN __section__ install''" by code_simp
  have a: "after_nth_marker (is_marker ?c) 1 ?ls = [''log1'', ''Successfully built abc123'']"
    by code_simp
  from trailing_window_after_last_marker [OF n]
  have l: "last (scanner ?c ?ls) = SendLastLogs (after_nth_marker (is_marker ?c) 1 ?ls)"
    and r: "\<forall>pre l. is_marker ?c l \<longrightarrow> trailing_window ?c (pre @ [l]) = []"
    by blast+
  from r m have "trailing_window ?c ([''early'', ''log0''] @ [''Step 2/3 : RUN __section__ install'']) = []"
    by blast
  with l a show ?thesis by simp
qed

lemma tags_sent_append: "tags_sent (a @ b) = tags_sent a @ tags_sent b"
  by (induction a rule: tags_sent.induct) simp_all

lemma logs_of_append: "logs_of (a @ b) = logs_of a @ logs_of b"
  by (induction a rule: logs_of.induct) simp_all

lemma scan_line_tags: "tags_sent (snd (scan_line c st line)) = line_tags line"
  by (simp add: scan_line_def line_tags_def Let_def tags_sent_append split: option.split)

lemma scan_loop_tags: "tags_sent (snd (scan_loop c st ls)) = concat (map line_tags ls)"
  by (induction ls arbitrary: st)
     (simp_all add: case_prod_beta Let_def tags_sent_append scan_line_tags)

lemma scanner_tags: "tags_sent (scanner c ls) = concat (map line_tags ls)"
  by (simp add: scanner_decomp tags_sent_append scan_loop_tags)

lemma success_line_no_buildkit: "buildkitRegex_submatch (successPrefix @ rest) = None"
  by (simp add: buildkitRegex_submatch_def successPrefix_def)

lemma success_line_tags: "line_tags (successPrefix @ rest) = [TrimSpace rest]"
  by (simp add: line_tags_def success_line_no_buildkit HasPrefix_def TrimPrefix_def)

text \<open>
  Claim C7. A line that begins with \<^verbatim>\<open>Successfully built \<close> makes the classifier send
  exactly one tag, the rest of the line with the white space around it trimmed; the lines
  before it, section markers or not, and the lines after it change nothing of that: the
  tags sent for the stream are those of the lines before, this tag, and those of the lines
  after.
\<close>

theorem legacy_success_line_tag:
  "tags_sent (scanner c (pre @ [successPrefix @ rest] @ post)) =
     tags_sent (scanner c pre) @ [TrimSpace rest] @ tags_sent (scanner c post)"
  by (simp add: scanner_tags success_line_tags)

theorem legacy_success_line_tag_witness:
  "tags_sent (scanner \<lparr>SectionPrefix = ''__section__ '', SectionStartingBuild = ''starting build''\<rparr>
      ([''RUN __section__ install'', ''log1''] @ [successPrefix @ ''  abc123 ''] @ [''done''])) =
   [''abc123'']"
proof -
  let ?c = "\<lparr>SectionPrefix = ''__section__ '', SectionStartingBuild = ''starting build''\<rparr>"
  have a: "tags_sent (scanner ?c [''RUN __section__ install'', ''log1'']) = []" by code_simp
  have b: "tags_sent (scanner ?c [''done'']) = []" by code_simp
  have t: "TrimSpace ''  abc123 '' = ''abc123''" by code_simp
  show ?thesis
    using legacy_success_line_tag [of ?c "[''RUN __section__ install'', ''log1'']" "''  abc123 ''" "[''done'']"]
    by (simp only: a b t append_Nil append_Nil2)
qed

section \<open>Properties of the image builder\<close>

lemma recv_lastLogs_no_tag:
  "tags_sent acts = [] \<Longrightarrow> list_all (\<lambda>a. \<not> is_SendLastLogs a) acts \<Longrightarrow>
   recv_lastLogs (acts @ [SendLastLogs w]) = Some (logs_of acts, w)"
proof (induction acts)
  case Nil
  show ?case by simp
next
  case (Cons a acts)
  then show ?case by (cases a) simp_all
qed

lemma recv_tag_no_tag:
  "tags_sent acts = [] \<Longrightarrow> recv_tag acts = None"
proof (induction acts)
  case Nil
  show ?case by simp
next
  case (Cons a acts)
  then show ?case by (cases a) simp_all
qed

lemma recv_tag_append:
  "tags_sent a = [] \<Longrightarrow> list_all (\<lambda>x. \<not> is_SendLastLogs x) a \<Longrightarrow>
   recv_tag (a @ SendTag t # b) = Some (logs_of a, t)"
proof (induction a)
  case Nil
  show ?case by simp
next
  case (Cons x a)
  then show ?case by (cases x) simp_all
qed

lemma scan_line_success_actions:
  "\<exists>a. snd (scan_line c st (successPrefix @ rest)) = a @ [SendTag (TrimSpace rest)] \<and>
       tags_sent a = [] \<and> list_all (\<lambda>x. \<not> is_SendLastLogs x) a"
  by (simp add: scan_line_def Let_def success_line_no_buildkit HasPrefix_def TrimPrefix_def)

text \<open>
  Seen from \<^verbatim>\<open>build\<close>: when the command exits cleanly and no line before the success
  line makes the classifier send a tag, the tag of that line is the one returned.
\<close>

lemma build_returns_legacy_tag:
  assumes "pipe_error cmd = None" and "start_error cmd = None" and "exit_status cmd = 0"
    and "stdout_lines cmd = pre @ [successPrefix @ rest] @ post"
    and "tags_sent (scanner c pre) = []"
  shows "\<exists>lg. build c cmd =
     Returns (Inr (TrimSpace rest), lg @ [Info (''Successfully built '' @ TrimSpace rest)])"
proof -
  let ?st1 = "fst (scan_loop c (scan_init c) pre)"
  let ?a = "snd (scan_loop c (scan_init c) pre)"
  obtain m where m: "snd (scan_line c ?st1 (successPrefix @ rest)) = m @ [SendTag (TrimSpace rest)]"
    and mt: "tags_sent m = []" and ml: "list_all (\<lambda>x. \<not> is_SendLastLogs x) m"
    using scan_line_success_actions by blast
  from assms(5) have at: "tags_sent ?a = []"
    by (simp add: scanner_decomp tags_sent_append)
  have al: "list_all (\<lambda>x. \<not> is_SendLastLogs x) ?a" by (rule scan_loop_no_last)
  have "\<exists>b. scanner c (pre @ [successPrefix @ rest] @ post) =
      (?a @ m) @ SendTag (TrimSpace rest) # b"
    by (simp add: scanner_decomp scan_loop_append case_prod_beta Let_def m)
  then obtain b where s: "scanner c (stdout_lines cmd) = (?a @ m) @ SendTag (TrimSpace rest) # b"
    using assms(4) by auto
  have "recv_tag ((?a @ m) @ SendTag (TrimSpace rest) # b) = Some (logs_of (?a @ m), TrimSpace rest)"
    by (rule recv_tag_append) (simp_all add: tags_sent_append at mt al ml)
  with s assms(1-3) show ?thesis by (simp add: build_def cmd_Wait_def)
qed

text \<open>
  Claim C3, as amended. When the pipe is made, the command starts, its output holds no
  line that makes the classifier send a tag, and the command exits with a failure,
  \<^verbatim>\<open>build\<close> returns: its result is the error of \<^verbatim>\<open>cmd.Wait\<close>, and the logger has
  received, after all the goroutine wrote, each line of the trailing window; and
  \<^verbatim>\<open>BuildAndPush\<close> returns that error without tagging or pushing.
\<close>

theorem build_fails_without_tag:
  assumes "pipe_error cmd = None" and "start_error cmd = None" and "exit_status cmd \<noteq> 0"
    and "tags_sent (scanner c (stdout_lines cmd)) = []"
  shows "build c cmd =
     Returns (Inl (ExitError (exit_status cmd) []),
              logs_of (scanner c (stdout_lines cmd)) @
              map Info (trailing_window c (stdout_lines cmd))) \<and>
   BuildAndPush c registry name cmd tag_cmd push_cmd =
     Returns (Inl (ExitError (exit_status cmd) []))"
proof -
  let ?acts = "snd (scan_loop c (scan_init c) (stdout_lines cmd))"
  from assms(4) have t: "tags_sent ?acts = []"
    by (simp add: scanner_decomp tags_sent_append)
  have r: "recv_lastLogs (scanner c (stdout_lines cmd)) =
      Some (logs_of ?acts, trailing_window c (stdout_lines cmd))"
    unfolding scanner_decomp by (rule recv_lastLogs_no_tag [OF t scan_loop_no_last])
  have l: "logs_of (scanner c (stdout_lines cmd)) = logs_of ?acts"
    by (simp add: scanner_decomp logs_of_append)
  from assms(1-3) have b: "build c cmd =
     Returns (Inl (ExitError (exit_status cmd) []),
              logs_of (scanner c (stdout_lines cmd)) @
              map Info (trailing_window c (stdout_lines cmd)))"
    by (simp add: build_def cmd_Wait_def r l)
  then show ?thesis by (simp add: BuildAndPush_def)
qed

theorem build_fails_without_tag_witness:
  "build \<lparr>SectionPrefix = ''### --> '', SectionStartingBuild = ''Starting build''\<rparr>
     \<lparr>pipe_error = None, start_error = None,
      stdout_lines = [''Step 1/2 : RUN ### --> Installing'', ''pip: no such package''],
      stderr_text = [], stderr_lines = [], exit_status = 1\<rparr> =
   Returns (Inl (ExitError 1 []),
     [Debug ''Step 1/2 : RUN ### --> Installing'', Info ''  * Installing'',
      Debug ''pip: no such package'', Info ''pip: no such package''])"
proof -
  let ?c = "\<lparr>SectionPrefix = ''### --> '', SectionStartingBuild = ''Starting build''\<rparr>"
  let ?cmd = "\<lparr>pipe_error = None, start_error = None,
      stdout_lines = [''Step 1/2 : RUN ### --> Installing'', ''pip: no such package''],
      stderr_text = [], stderr_lines = [], exit_status = 1::nat\<rparr>"
  have 1: "pipe_error ?cmd = None" by simp
  have 2: "start_error ?cmd = None" by simp
  have 3: "exit_status ?cmd \<noteq> 0" by simp
  have 4: "tags_sent (scanner ?c (stdout_lines ?cmd)) = []" by code_simp
  have 5: "logs_of (scanner ?c (stdout_lines ?cmd)) @ map Info (trailing_window ?c (stdout_lines ?cmd))
     = [Debug ''Step 1/2 : RUN ### --> Installing'', Info ''  * Installing'',
      Debug ''pip: no such package'', Info ''pip: no such package'']" by code_simp
  from build_fails_without_tag [OF 1 2 3 4]
  have "build ?c ?cmd =
     Returns (Inl (ExitError (exit_status ?cmd) []),
              logs_of (scanner ?c (stdout_lines ?cmd)) @
              map Info (trailing_window ?c (stdout_lines ?cmd)))"
    by blast
  with 5 show ?thesis by simp
qed

text \<open>
  With a clean exit instead, \<^verbatim>\<open>build\<close> receives on \<^verbatim>\<open>tagChan\<close>, on which nothing is
  ever sent, while the goroutine waits in its send on \<^verbatim>\<open>lastLogsChan\<close>.
\<close>

lemma clean_exit_without_tag_blocks:
  assumes "pipe_error cmd = None" and "start_error cmd = None" and "exit_status cmd = 0"
    and "tags_sent (scanner c (stdout_lines cmd)) = []"
  shows "build c cmd = Blocks"
  using assms by (simp add: build_def cmd_Wait_def recv_tag_no_tag)

text \<open>
  Claim C3, as it stands, fails: a build whose output has no success line and whose
  command exits with status 0 never returns, and neither does \<^verbatim>\<open>BuildAndPush\<close>.
\<close>

theorem build_blocks_without_tag:
  "tags_sent (scanner \<lparr>SectionPrefix = ''### --> '', SectionStartingBuild = ''Starting build''\<rparr>
      [''Step 1/1 : FROM scratch'', ''--->'']) = [] \<and>
   build \<lparr>SectionPrefix = ''### --> '', SectionStartingBuild = ''Starting build''\<rparr>
     \<lparr>pipe_error = None, start_error = None,
      stdout_lines = [''Step 1/1 : FROM scratch'', ''--->''], stderr_text = [], stderr_lines = [],
      exit_status = 0\<rparr> = Blocks \<and>
   BuildAndPush \<lparr>SectionPrefix = ''### --> '', SectionStartingBuild = ''Starting build''\<rparr>
     noRegistry ''model''
     \<lparr>pipe_error = None, start_error = None,
      stdout_lines = [''Step 1/1 : FROM scratch'', ''--->''], stderr_text = [], stderr_lines = [],
      exit_status = 0\<rparr>
     \<lparr>pipe_error = None, start_error = None, stdout_lines = [], stderr_text = [], stderr_lines = [],
      exit_status = 0\<rparr>
     \<lparr>pipe_error = None, start_error = None, stdout_lines = [], stderr_text = [], stderr_lines = [],
      exit_status = 0\<rparr> = Blocks"
  by code_simp

lemma Contains_self_append: "Contains (s @ b) s"
proof (cases "s @ b")
  case Nil
  then show ?thesis by simp
next
  case (Cons x xs)
  have "prefix s (s @ b)" by simp
  with Cons have "prefix s (x # xs)" by simp
  with Cons show ?thesis by simp
qed

lemma Contains_infix: "Contains (a @ s @ b) s"
proof (induction a)
  case Nil
  show ?case using Contains_self_append by simp
next
  case (Cons x a)
  then show ?case by simp
qed

lemma docker_checks_log:
  "docker_checks ls lg0 = Returns lg \<Longrightarrow> lg = lg0 @ map Info ls"
proof (induction ls arbitrary: lg0)
  case Nil
  then show ?case by simp
next
  case (Cons l ls)
  from Cons.prems have "docker_checks ls (lg0 @ [Info l]) = Returns lg"
    by (simp split: if_splits)
  then have "lg = (lg0 @ [Info l]) @ map Info ls" by (rule Cons.IH)
  then show ?case by simp
qed

text \<open>
  What \<^verbatim>\<open>push\<close> returns when it returns, its pipe made: the error of \<^verbatim>\<open>cmd.Run\<close> as
  it is; the logger has received the lines handed to the callback.
\<close>

lemma push_returns_run_error:
  assumes "pipe_error cmd = None" and "push t cmd = Returns (r, lg)"
  shows "r = cmd_Run cmd"
    and "lg = Info (''Pushing '' @ t @ '' to registry'') #
           (if start_error cmd = None then map Info (stderr_lines cmd) else [])"
  using assms
  by (auto simp: push_def split: option.splits outcome.splits dest: docker_checks_log)

text \<open>
  Claim C5, as amended. A tag operation that fails with an exit status other than 0
  returns an error that carries the standard error captured from the command.
\<close>

theorem tag_failure_carries_stderr:
  "start_error cmd = None \<Longrightarrow> exit_status cmd \<noteq> 0 \<Longrightarrow>
   \<exists>err. tag t fullImageTag cmd = Returns (Some err) \<and> carries_text err (stderr_text cmd)"
proof -
  assume a: "start_error cmd = None" and b: "exit_status cmd \<noteq> 0"
  have "Contains ((''Failed to tag '' @ t @ '' as '' @ fullImageTag @ '', got error: '') @
      stderr_text cmd @ []) (stderr_text cmd)"
    by (rule Contains_infix)
  with a b show ?thesis by (simp add: tag_def cmd_Output_def)
qed

theorem tag_failure_carries_stderr_witness:
  "tag ''0123456789ab'' ''no_registry/model:0123456789ab''
     \<lparr>pipe_error = None, start_error = None, stdout_lines = [],
      stderr_text = ''Error response from daemon: No such image'', stderr_lines = [],
      exit_status = 1\<rparr> =
     Returns (Some (Errorf ''Failed to tag 0123456789ab as no_registry/model:0123456789ab, got error: Error response from daemon: No such image'')) \<and>
   carries_text (Errorf ''Failed to tag 0123456789ab as no_registry/model:0123456789ab, got error: Error response from daemon: No such image'')
     ''Error response from daemon: No such image''"
proof -
  let ?tc = "\<lparr>pipe_error = None, start_error = None, stdout_lines = [],
      stderr_text = ''Error response from daemon: No such image'', stderr_lines = [],
      exit_status = 1::nat\<rparr>"
  have t: "tag ''0123456789ab'' ''no_registry/model:0123456789ab'' ?tc =
     Returns (Some (Errorf ''Failed to tag 0123456789ab as no_registry/model:0123456789ab, got error: Error response from daemon: No such image''))"
    by code_simp
  have h1: "start_error ?tc = None" by simp
  have h2: "exit_status ?tc \<noteq> 0" by simp
  from tag_failure_carries_stderr [OF h1 h2, of "''0123456789ab''" "''no_registry/model:0123456789ab''"]
  obtain err where e: "tag ''0123456789ab'' ''no_registry/model:0123456789ab'' ?tc = Returns (Some err)"
    and c: "carries_text err (stderr_text ?tc)"
    by blast
  from e t have "err = Errorf ''Failed to tag 0123456789ab as no_registry/model:0123456789ab, got error: Error response from daemon: No such image''"
    by simp
  with c t show ?thesis by simp
qed

text \<open>
  Claim C5, as it stands, fails for push: the error a failing push returns is the exit
  status alone; the text the command wrote to standard error is no part of it.
\<close>

theorem push_failure_without_stderr:
  "push ''registry.example/model:0123456789ab''
     \<lparr>pipe_error = None, start_error = None, stdout_lines = [],
      stderr_text = ''denied: access forbidden'',
      stderr_lines = [''denied: access forbidden''], exit_status = 1\<rparr> =
     Returns (Some (ExitError 1 []),
              [Info ''Pushing registry.example/model:0123456789ab to registry'',
               Info ''denied: access forbidden'']) \<and>
   Error (ExitError 1 []) = ''exit status 1'' \<and>
   \<not> carries_text (ExitError 1 []) ''denied: access forbidden''"
  by code_simp

text \<open>
  Claim C9. When \<^verbatim>\<open>cmd.Output\<close> fails with an error that is not an
  \<^verbatim>\<open>*exec.ExitError\<close>, as it does when the executable cannot be started, \<^verbatim>\<open>tag\<close>
  panics and returns nothing.
\<close>

theorem tag_panics_on_other_error:
  "cmd_Output cmd = Some err \<Longrightarrow> \<not> is_ExitError err \<Longrightarrow> tag t fullImageTag cmd = Panics"
  by (cases err) (simp_all add: tag_def)

theorem tag_panics_on_other_error_witness:
  "tag ''0123456789ab'' ''no_registry/model:0123456789ab''
     \<lparr>pipe_error = None,
      start_error = Some ''exec: docker: executable file not found in $PATH'',
      stdout_lines = [], stderr_text = [], stderr_lines = [], exit_status = 0\<rparr> = Panics"
proof -
  let ?cmd = "\<lparr>pipe_error = None,
      start_error = Some ''exec: docker: executable file not found in $PATH'',
      stdout_lines = [], stderr_text = [], stderr_lines = [], exit_status = 0::nat\<rparr>"
  have o: "cmd_Output ?cmd = Some (OtherError ''exec: docker: executable file not found in $PATH'')"
    by (simp add: cmd_Output_def)
  have n: "\<not> is_ExitError (OtherError ''exec: docker: executable file not found in $PATH'')"
    by simp
  show ?thesis by (rule tag_panics_on_other_error [OF o n])
qed

section \<open>Properties of example construction\<close>

text \<open>
  Claim C8. For every key of the map given, a value that begins with \<^verbatim>\<open>@\<close> yields a
  file reference whose path is the value without its first byte (handed to
  \<^verbatim>\<open>filepath.Join\<close> after the base directory in the variant with a base directory), and
  any other value yields an inline field holding the value. Every field built has exactly
  one of its two pointers set, and the fields built are those of the keys given.
\<close>

theorem NewExample_classifies:
  "keyVals key = Some val \<Longrightarrow>
   (HasPrefix val ''@'' \<longrightarrow>
      Example.Values (NewExample keyVals) key = Some \<lparr>String = None, File = Some (drop 1 val)\<rparr> \<and>
      Example.Values (NewExampleWithBaseDir Join keyVals baseDir) key =
        Some \<lparr>String = None, File = Some (Join baseDir (drop 1 val))\<rparr>) \<and>
   (\<not> HasPrefix val ''@'' \<longrightarrow>
      Example.Values (NewExample keyVals) key = Some \<lparr>String = Some val, File = None\<rparr> \<and>
      Example.Values (NewExampleWithBaseDir Join keyVals baseDir) key =
        Some \<lparr>String = Some val, File = None\<rparr>) \<and>
   (\<forall>ev. Example.Values (NewExample keyVals) key = Some ev \<or>
         Example.Values (NewExampleWithBaseDir Join keyVals baseDir) key = Some ev \<longrightarrow>
         (String ev = None) \<noteq> (File ev = None)) \<and>
   dom (Example.Values (NewExample keyVals)) = dom keyVals \<and>
   dom (Example.Values (NewExampleWithBaseDir Join keyVals baseDir)) = dom keyVals"
  by (auto simp: NewExample_def NewExampleWithBaseDir_def split: option.splits if_splits)

theorem NewExample_classifies_witness:
  "Example.Values (NewExample [''k'' \<mapsto> ''@/tmp/x'']) ''k'' =
     Some \<lparr>String = None, File = Some ''/tmp/x''\<rparr> \<and>
   Example.Values (NewExampleWithBaseDir (\<lambda>dir p. dir @ ''/'' @ p) [''k'' \<mapsto> ''@x.png''] ''/data'') ''k'' =
     Some \<lparr>String = None, File = Some ''/data/x.png''\<rparr>"
proof -
  have k: "[''k'' \<mapsto> ''@/tmp/x''] ''k'' = Some ''@/tmp/x''" by simp
  have k2: "[''k'' \<mapsto> ''@x.png''] ''k'' = Some ''@x.png''" by simp
  have p: "HasPrefix ''@/tmp/x'' ''@''" by (simp add: HasPrefix_def)
  have p2: "HasPrefix ''@x.png'' ''@''" by (simp add: HasPrefix_def)
  from NewExample_classifies [of "[''k'' \<mapsto> ''@/tmp/x'']" "''k''" "''@/tmp/x''"] k p
  have a: "Example.Values (NewExample [''k'' \<mapsto> ''@/tmp/x'']) ''k'' =
     Some \<lparr>String = None, File = Some (drop 1 ''@/tmp/x'')\<rparr>" by blast
  from NewExample_classifies [of "[''k'' \<mapsto> ''@x.png'']" "''k''" "''@x.png''"
      "\<lambda>dir p. dir @ ''/'' @ p" "''/data''"] k2 p2
  have b: "Example.Values (NewExampleWithBaseDir (\<lambda>dir p. dir @ ''/'' @ p) [''k'' \<mapsto> ''@x.png''] ''/data'') ''k'' =
     Some \<lparr>String = None, File = Some ((\<lambda>dir p. dir @ ''/'' @ p) ''/data'' (drop 1 ''@x.png''))\<rparr>" by blast
  from a b show ?thesis by simp
qed

section \<open>Properties of the serving session\<close>

lemma RunInference_success:
  assumes "RunInference env port input = (Returns (Inr result), fx)"
  shows "\<exists>enc resp.
     encode_loop env (Example.Values input) (range_order env)
       \<lparr>parts = [], open_files = []\<rparr> = (Returns None, enc) \<and>
     Do env (parts enc) = Inr resp \<and> StatusCode resp = 200 \<and> body_error resp = None \<and>
     result = fst (decode_response env resp)"
proof -
  obtain r enc where e: "encode_loop env (Example.Values input) (range_order env)
       \<lparr>parts = [], open_files = []\<rparr> = (r, enc)"
    by (cases "encode_loop env (Example.Values input) (range_order env)
       \<lparr>parts = [], open_files = []\<rparr>")
  from assms e have r: "r = Returns None"
    by (auto simp: RunInference_def split: outcome.splits option.splits)
  from assms e r obtain resp where d: "Do env (parts enc) = Inr resp"
    by (cases "Do env (parts enc)")
       (auto simp: RunInference_def Let_def split: option.splits)
  from assms e r d have "StatusCode resp = 200 \<and> body_error resp = None \<and>
     result = fst (decode_response env resp)"
    by (auto simp: RunInference_def Let_def split: option.splits if_splits)
  with e r d show ?thesis by blast
qed

lemma decode_response_output:
  "Values (fst (decode_response env resp)) =
     [''output'' \<mapsto> \<lparr>Buffer = Body resp,
                      MimeType = Split_first (Header_Get (Header resp) ''Content-Type'') CHR '';''\<rparr>]"
  by (simp add: decode_response_def Let_def)

lemma decode_response_RunTime:
  "RunTime (fst (decode_response env resp)) =
     (if Header_Get (Header resp) ''X-Run-Time'' \<noteq> []
      then fst (ParseFloat env (Header_Get (Header resp) ''X-Run-Time'')) else - 1)"
  by (simp add: decode_response_def Let_def timing_def)

lemma ParseFloat_decimal_one_and_a_half: "ParseFloat_decimal ''1.5'' = (3 / 2, None)"
  by (simp add: ParseFloat_decimal_def decimal_literal_def digits_value_def isDigit_def)

lemma ParseFloat_decimal_not_a_number:
  "ParseFloat_decimal ''not-a-number'' =
     (0, Some (OtherError (''strconv.ParseFloat: parsing '' @ [CHR 0x22] @ ''not-a-number'' @
                           [CHR 0x22] @ '': invalid syntax'')))"
  by (simp add: ParseFloat_decimal_def decimal_literal_def digits_value_def isDigit_def)

lemma timing_assigned: "str \<noteq> [] \<Longrightarrow> timing env str = fst (ParseFloat env str)"
  by (simp add: timing_def)

text \<open>
  Claim C1, at the response of the claim (\<^verbatim>\<open>X-Setup-Time: 1.5\<close>,
  \<^verbatim>\<open>X-Run-Time: not-a-number\<close>, status 200): the call succeeds and the setup time is
  1.5, but the run time is the 0 that \<^verbatim>\<open>ParseFloat\<close> returned beside its error, not the
  -1 the variable started with; the error is printed.
\<close>

theorem RunInference_malformed_run_time:
  "RunInference
     \<lparr>range_order = [],
      files = (\<lambda>path. \<lparr>open_error = None, content = [], copy_error = None, close_error = None\<rparr>),
      CreateFormFile_error = (\<lambda>key. None),
      CreateFormField_error = (\<lambda>key. None),
      Write_error = (\<lambda>key. None),
      mwriter_Close_error = None,
      NewRequest_error = None,
      Do = (\<lambda>body. Inr \<lparr>StatusCode = 200,
                           Header = [''X-Setup-Time'' \<mapsto> ''1.5'', ''X-Run-Time'' \<mapsto> ''not-a-number''],
                           Body = ''out'', body_error = None\<rparr>),
      container_logs = Inr [],
      ParseFloat = ParseFloat_decimal\<rparr>
     5000 \<lparr>Example.Values = Map.empty\<rparr> =
   (Returns (Inr \<lparr>Values = [''output'' \<mapsto> \<lparr>Buffer = ''out'', MimeType = []\<rparr>],
                  SetupTime = 3 / 2, RunTime = 0\<rparr>),
    \<lparr>left_open = [], logged = [],
     console = [''Failed to parse run time '' @ [CHR 0x27] @ ''not-a-number'' @ [CHR 0x27] @
                '' as float: strconv.ParseFloat: parsing '' @ [CHR 0x22] @ ''not-a-number'' @
                [CHR 0x22] @ '': invalid syntax'']\<rparr>)"
  by (simp add: RunInference_def decode_response_def Header_Get_def Split_first_def
      timing_def timing_errors_def ParseFloat_decimal_one_and_a_half
      ParseFloat_decimal_not_a_number)

text \<open>
  The loop body on a file reference and on an inline field, when nothing fails, and on a
  file reference whose copy fails: there the function returns with the file still open.
\<close>

lemma encode_value_file_copied:
  "File val = Some path \<Longrightarrow> CreateFormFile_error env key = None \<Longrightarrow>
   open_error (files env path) = None \<Longrightarrow> copy_error (files env path) = None \<Longrightarrow>
   close_error (files env path) = None \<Longrightarrow>
   encode_value env key val enc =
     (Returns None,
      \<lparr>parts = parts enc @ [FormFile key (Base path) (content (files env path))],
       open_files = open_files enc\<rparr>)"
  by (simp add: encode_value_def Let_def)

lemma encode_value_inline:
  "File val = None \<Longrightarrow> String val = Some s \<Longrightarrow> CreateFormField_error env key = None \<Longrightarrow>
   Write_error env key = None \<Longrightarrow>
   encode_value env key val enc = (Returns None, enc\<lparr>parts := parts enc @ [FormField key s]\<rparr>)"
  by (simp add: encode_value_def)

lemma encode_value_copy_fails:
  "File val = Some path \<Longrightarrow> CreateFormFile_error env key = None \<Longrightarrow>
   open_error (files env path) = None \<Longrightarrow> copy_error (files env path) = Some err \<Longrightarrow>
   encode_value env key val enc =
     (Returns (Some err),
      \<lparr>parts = parts enc @ [FormFile key (Base path) (content (files env path))],
       open_files = path # open_files enc\<rparr>)"
  by (simp add: encode_value_def Let_def)

text \<open>
  Claim C6, at an example whose one field refers to a file that opens and then fails to
  be read (a directory does): the call returns the error of the copy and the file is left
  open.
\<close>

theorem RunInference_leaves_file_open:
  "RunInference
     \<lparr>range_order = [''image''],
      files = (\<lambda>path. \<lparr>open_error = None, content = [],
                        copy_error = Some (OtherError ''read /tmp: is a directory''),
                        close_error = None\<rparr>),
      CreateFormFile_error = (\<lambda>key. None),
      CreateFormField_error = (\<lambda>key. None),
      Write_error = (\<lambda>key. None),
      mwriter_Close_error = None,
      NewRequest_error = None,
      Do = (\<lambda>body. Inr \<lparr>StatusCode = 200, Header = Map.empty, Body = [], body_error = None\<rparr>),
      container_logs = Inr [],
      ParseFloat = ParseFloat_decimal\<rparr>
     5000 (NewExample [''image'' \<mapsto> ''@/tmp'']) =
   (Returns (Inl (OtherError ''read /tmp: is a directory'')),
    \<lparr>left_open = [''/tmp''], logged = [], console = []\<rparr>)"
  by (simp add: RunInference_def NewExample_def HasPrefix_def encode_value_def Let_def)

text \<open>
  Claim C10. A call that returns a result returns one whose map has the single key
  \<^verbatim>\<open>output\<close>; its value holds the whole body of a response with status 200 that was
  read without error, and the part of that response's \<^verbatim>\<open>Content-Type\<close> before the
  first semicolon.
\<close>

theorem RunInference_single_output:
  assumes "RunInference env port input = (Returns (Inr result), fx)"
  shows "dom (Values result) = {''output''} \<and>
   (\<exists>body resp. Do env body = Inr resp \<and> StatusCode resp = 200 \<and> body_error resp = None \<and>
      Values result ''output'' =
        Some \<lparr>Buffer = Body resp,
              MimeType = Split_first (Header_Get (Header resp) ''Content-Type'') CHR '';''\<rparr>)"
proof -
  from RunInference_success [OF assms] obtain enc :: encoding and resp where
    d: "Do env (parts enc) = Inr resp" and s: "StatusCode resp = 200" and
    b: "body_error resp = None" and r: "result = fst (decode_response env resp)"
    by blast
  from r have v: "Values result = [''output'' \<mapsto> \<lparr>Buffer = Body resp,
      MimeType = Split_first (Header_Get (Header resp) ''Content-Type'') CHR '';''\<rparr>]"
    by (simp add: decode_response_output)
  then have "dom (Values result) = {''output''}" by simp
  moreover from v have "Values result ''output'' = Some \<lparr>Buffer = Body resp,
      MimeType = Split_first (Header_Get (Header resp) ''Content-Type'') CHR '';''\<rparr>"
    by simp
  ultimately show ?thesis using d s b by blast
qed

theorem RunInference_single_output_witness:
  "RunInference
     \<lparr>range_order = [''text''],
      files = (\<lambda>path. \<lparr>open_error = None, content = [], copy_error = None, close_error = None\<rparr>),
      CreateFormFile_error = (\<lambda>key. None),
      CreateFormField_error = (\<lambda>key. None),
      Write_error = (\<lambda>key. None),
      mwriter_Close_error = None,
      NewRequest_error = None,
      Do = (\<lambda>body. Inr \<lparr>StatusCode = 200,
                           Header = [''Content-Type'' \<mapsto> ''image/png; charset=binary'',
                                     ''X-Run-Time'' \<mapsto> ''1.5''],
                           Body = ''out'', body_error = None\<rparr>),
      container_logs = Inr [],
      ParseFloat = ParseFloat_decimal\<rparr>
     5000 (NewExample [''text'' \<mapsto> ''hello'']) =
     (Returns (Inr \<lparr>Values = [''output'' \<mapsto> \<lparr>Buffer = ''out'', MimeType = ''image/png''\<rparr>],
                    SetupTime = - 1, RunTime = 3 / 2\<rparr>),
      \<lparr>left_open = [], logged = [], console = []\<rparr>) \<and>
   dom (Values \<lparr>Values = [''output'' \<mapsto> \<lparr>Buffer = ''out'', MimeType = ''image/png''\<rparr>],
                  SetupTime = - 1, RunTime = 3 / 2\<rparr>) = {''output''}"
proof -
  let ?env = "\<lparr>range_order = [''text''],
      files = (\<lambda>path. \<lparr>open_error = None, content = [], copy_error = None, close_error = None\<rparr>),
      CreateFormFile_error = (\<lambda>key. None),
      CreateFormField_error = (\<lambda>key. None),
      Write_error = (\<lambda>key. None),
      mwriter_Close_error = None,
      NewRequest_error = None,
      Do = (\<lambda>body. Inr \<lparr>StatusCode = 200,
                           Header = [''Content-Type'' \<mapsto> ''image/png; charset=binary'',
                                     ''X-Run-Time'' \<mapsto> ''1.5''],
                           Body = ''out'', body_error = None\<rparr>),
      container_logs = Inr [],
      ParseFloat = ParseFloat_decimal\<rparr>"
  have r: "RunInference ?env 5000 (NewExample [''text'' \<mapsto> ''hello'']) =
     (Returns (Inr \<lparr>Values = [''output'' \<mapsto> \<lparr>Buffer = ''out'', MimeType = ''image/png''\<rparr>],
                  SetupTime = - 1, RunTime = 3 / 2\<rparr>),
      \<lparr>left_open = [], logged = [], console = []\<rparr>)"
    by (simp add: RunInference_def NewExample_def HasPrefix_def encode_value_def Let_def
        decode_response_def Header_Get_def Split_first_def timing_def timing_errors_def
        ParseFloat_decimal_one_and_a_half)
  from RunInference_single_output [OF r]
  have "dom (Values \<lparr>Values = [''output'' \<mapsto> \<lparr>Buffer = ''out'', MimeType = ''image/png''\<rparr>],
                  SetupTime = - 1, RunTime = 3 / 2\<rparr>) = {''output''}"
    by blast
  with r show ?thesis by blast
qed

section \<open>Properties of readiness polling\<close>





end
